theory Spec2Isabelle
  imports Main "HOL-Library.Word"
begin

unbundle bit_operations_syntax

section \<open>ndseq: a JACK step sequencer between a Launchpad and a Nord Drum 3p\<close>

text \<open>
  The Go program keeps its sequencer in package-level variables and is driven by two JACK
  callbacks: \<open>setSamplesPerBeat\<close> (sample rate) and \<open>Process\<close> (one audio buffer).
  The embedding passes the variables around as a record, returns every integer status
  code the source returns, and makes an index out of range, which panics in Go, a value
  of its own.
\<close>

subsection \<open>Data\<close>

type_synonym u8 = "8 word"
type_synonym u32 = "32 word"

text \<open>The four \<open>*jack.Port\<close> variables of the program.\<close>

datatype port = launchpadInput | launchpadOutput | ndInput | ndOutput

text \<open>
  \<open>jack.MidiData\<close> is used for its \<open>Buffer\<close> only. A \<open>jack.MidiBuffer\<close> is
  modelled by the calls of \<open>MidiEventWrite\<close> made on it so far, oldest first, each with
  the port it was called on.
\<close>

type_synonym MidiData = "u8 list"
type_synonym MidiBuffer = "(port \<times> MidiData) list"

text \<open>
  What the program takes from the package \<open>go-jack\<close>, which is not part of the
  repository: the status constants compared in \<open>isFailure\<close>, and the status code that
  \<open>MidiEventWrite\<close> returns for a port, an event and a buffer.
\<close>

record jack =
  Failure :: int
  InvalidOption :: int
  NameNotUnique :: int
  ServerError :: int
  NoSuchClient :: int
  LoadFailure :: int
  InitFailure :: int
  ShmFailure :: int
  VersionError :: int
  BackendError :: int
  ClientZombie :: int
  MidiEventWrite :: "port \<Rightarrow> MidiData \<Rightarrow> MidiBuffer \<Rightarrow> int"

text \<open>
  The package-level variables of the sequencer. \<open>beat\<close> is a Go \<open>int\<close>, a 64-bit
  two's complement integer, so that \<open>beat++\<close> wraps around. \<open>triggerCalls\<close> is not a
  variable of the program: \<open>trigger\<close> has no effect of its own, since \<open>triggerTrack\<close>
  is a stub, so the model counts the calls of \<open>trigger\<close> to make them observable.
\<close>

record globals =
  beat :: "64 word"
  firstNotePlayed :: bool
  sampleCount :: u32
  samplesPerBeat :: u32
  tempo :: u32
  trigs :: "u8 list list"
  triggerCalls :: nat

datatype panic = IndexOutOfRange

subsection \<open>Status codes\<close>

definition DivideByZero :: int where
  "DivideByZero = 50"

definition isFailure :: "jack \<Rightarrow> int \<Rightarrow> bool" where
  "isFailure jk code \<longleftrightarrow>
     code = Failure jk \<or> code = InvalidOption jk \<or> code = NameNotUnique jk \<or>
     code = ServerError jk \<or> code = NoSuchClient jk \<or> code = LoadFailure jk \<or>
     code = InitFailure jk \<or> code = ShmFailure jk \<or> code = VersionError jk \<or>
     code = BackendError jk \<or> code = ClientZombie jk \<or> code = DivideByZero"

text \<open>A call \<open>p.MidiEventWrite(&jack.MidiData{Buffer: d}, outBuffer)\<close>.\<close>

definition midiEventWrite :: "jack \<Rightarrow> port \<Rightarrow> MidiData \<Rightarrow> MidiBuffer \<Rightarrow> int \<times> MidiBuffer" where
  "midiEventWrite jk p d outBuffer = (MidiEventWrite jk p d outBuffer, outBuffer @ [(p, d)])"

subsection \<open>The step light\<close>

definition advanceStepLight :: "jack \<Rightarrow> globals \<Rightarrow> MidiBuffer \<Rightarrow> int \<times> globals \<times> MidiBuffer" where
  "advanceStepLight jk s outBuffer =
     (if beat s = 0 \<and> \<not> firstNotePlayed s then
        (case midiEventWrite jk launchpadOutput [0x90, 0x10, 63] outBuffer of
           (code, outBuffer') \<Rightarrow> (code, s\<lparr>beat := beat s + 1\<rparr>, outBuffer'))
      else (0, s\<lparr>beat := beat s + 1\<rparr>, outBuffer))"

text \<open>Go's \<open>/\<close> and \<open>%\<close> on \<open>int\<close> truncate towards zero.\<close>

definition go_quot :: "int \<Rightarrow> int \<Rightarrow> int" where
  "go_quot a b = sgn a * sgn b * (\<bar>a\<bar> div \<bar>b\<bar>)"

definition go_rem :: "int \<Rightarrow> int \<Rightarrow> int" where
  "go_rem a b = a - b * go_quot a b"

text \<open>
  The conversion \<open>byte(n)\<close> keeps the low eight bits, as \<open>word_of_int\<close> does. The
  argument is the value of the Go \<open>int\<close>; the sum is too small to leave 64 bits.
\<close>

definition stepLightMidiData :: "int \<Rightarrow> MidiData" where
  "stepLightMidiData b = [0x90, word_of_int (go_quot b 8 + 16 * go_rem b 8), 63]"

subsection \<open>Inbound MIDI\<close>

text \<open>
  \<open>cc\<close> builds its event from \<open>in[2]\<close> before it looks at \<open>in[1]\<close>; both reads
  need three bytes, and Go panics on a shorter slice.
\<close>

definition cc :: "jack \<Rightarrow> globals \<Rightarrow> u32 \<Rightarrow> MidiData \<Rightarrow> MidiBuffer \<Rightarrow> panic + (int \<times> globals \<times> MidiBuffer)" where
  "cc jk s nframes inb outBuffer =
     (if length inb < 3 then Inl IndexOutOfRange
      else
        let event = [0x90, 0x36, inb ! 2];
            event' =
              (if inb ! 1 = 0x68 then event
               else if inb ! 1 = 0x69 then event[0 := event ! 0 OR 0x01]
               else if inb ! 1 = 0x6A then event[0 := event ! 0 OR 0x02]
               else if inb ! 1 = 0x6B then event[0 := event ! 0 OR 0x03]
               else if inb ! 1 = 0x6C then event[0 := event ! 0 OR 0x04]
               else if inb ! 1 = 0x6D then event[0 := event ! 0 OR 0x05]
               else event)
        in (case midiEventWrite jk ndOutput event' outBuffer of
              (code, outBuffer') \<Rightarrow> Inr (code, s, outBuffer')))"

text \<open>The function \<open>note\<close> of the source; it returns 0 and does nothing else.\<close>

definition note_ev :: "globals \<Rightarrow> u32 \<Rightarrow> MidiData \<Rightarrow> MidiBuffer \<Rightarrow> int \<times> globals \<times> MidiBuffer" where
  "note_ev s nframes inb out = (0, s, out)"

definition processMidi :: "jack \<Rightarrow> globals \<Rightarrow> u32 \<Rightarrow> MidiData \<Rightarrow> MidiBuffer \<Rightarrow> panic + (int \<times> globals \<times> MidiBuffer)" where
  "processMidi jk s nframes event outBuffer =
     (if event = [] then Inl IndexOutOfRange
      else if event ! 0 = 0xB0 then cc jk s nframes event outBuffer
      else if event ! 0 = 0x80 \<or> event ! 0 = 0x90 then Inr (note_ev s nframes event outBuffer)
      else Inr (0, s, outBuffer))"

subsection \<open>The clock\<close>

definition setSamplesPerBeat :: "globals \<Rightarrow> u32 \<Rightarrow> int \<times> globals" where
  "setSamplesPerBeat s sr =
     (if tempo s = 0 then (DivideByZero, s)
      else (0, s\<lparr>samplesPerBeat := (60 * sr) div tempo s\<rparr>))"

definition triggerTrack :: "nat \<Rightarrow> u8 \<Rightarrow> MidiBuffer \<Rightarrow> int" where
  "triggerTrack track trig outBuffer = 0"

text \<open>
  The inner loop of \<open>trigger\<close> over one track: \<open>Some code\<close> when it returns from
  \<open>trigger\<close> with that code, \<open>None\<close> when it runs to its end.
\<close>

fun triggerTrigs :: "jack \<Rightarrow> nat \<Rightarrow> u8 list \<Rightarrow> MidiBuffer \<Rightarrow> int option" where
  "triggerTrigs jk track [] outBuffer = None"
| "triggerTrigs jk track (trig # rest) outBuffer =
     (let code = triggerTrack track trig outBuffer
      in if isFailure jk code then Some code else triggerTrigs jk track rest outBuffer)"

text \<open>The outer loop, from track number \<open>track\<close> on.\<close>

fun triggerTracks :: "jack \<Rightarrow> nat \<Rightarrow> u8 list list \<Rightarrow> MidiBuffer \<Rightarrow> int" where
  "triggerTracks jk track [] outBuffer = 0"
| "triggerTracks jk track (trackTrigs # rest) outBuffer =
     (case triggerTrigs jk track trackTrigs outBuffer of
        Some code \<Rightarrow> code
      | None \<Rightarrow> triggerTracks jk (Suc track) rest outBuffer)"

definition trigger :: "jack \<Rightarrow> globals \<Rightarrow> u32 \<Rightarrow> MidiBuffer \<Rightarrow> int \<times> globals \<times> MidiBuffer" where
  "trigger jk s nframes outBuffer =
     (triggerTracks jk 0 (trigs s) outBuffer, s\<lparr>triggerCalls := Suc (triggerCalls s)\<rparr>, outBuffer)"

definition tick :: "jack \<Rightarrow> globals \<Rightarrow> u32 \<Rightarrow> MidiBuffer \<Rightarrow> int \<times> globals \<times> MidiBuffer" where
  "tick jk s nframes outBuffer =
     (if \<not> firstNotePlayed s then
        (case advanceStepLight jk s outBuffer of
           (code, s1, outBuffer1) \<Rightarrow>
             if isFailure jk code then (code, s1, outBuffer1)
             else trigger jk (s1\<lparr>firstNotePlayed := True\<rparr>) nframes outBuffer1)
      else if sampleCount s + nframes < samplesPerBeat s then
        (0, s\<lparr>sampleCount := sampleCount s + nframes\<rparr>, outBuffer)
      else trigger jk s nframes outBuffer)"

subsection \<open>The process callback\<close>

text \<open>The loop of \<open>Process\<close> over the events read from the Launchpad.\<close>

fun processEvents :: "jack \<Rightarrow> globals \<Rightarrow> u32 \<Rightarrow> MidiData list \<Rightarrow> MidiBuffer \<Rightarrow> panic + (int \<times> globals \<times> MidiBuffer)" where
  "processEvents jk s nframes [] outBuffer = Inr (0, s, outBuffer)"
| "processEvents jk s nframes (event # rest) outBuffer =
     (case processMidi jk s nframes event outBuffer of
        Inl p \<Rightarrow> Inl p
      | Inr (code, s1, outBuffer1) \<Rightarrow>
          if code \<noteq> 0 then Inr (code, s1, outBuffer1)
          else processEvents jk s1 nframes rest outBuffer1)"

text \<open>
  \<open>Process\<close>, with the events that \<open>GetMidiEvents\<close> returns as an argument; the
  buffer that \<open>MidiClearBuffer\<close> returns is empty.
\<close>

definition Process :: "jack \<Rightarrow> globals \<Rightarrow> u32 \<Rightarrow> MidiData list \<Rightarrow> panic + (int \<times> globals \<times> MidiBuffer)" where
  "Process jk s nframes launchpadEvents =
     (case processEvents jk s nframes launchpadEvents [] of
        Inl p \<Rightarrow> Inl p
      | Inr (code, s1, outBuffer1) \<Rightarrow>
          if code \<noteq> 0 then Inr (code, s1, outBuffer1)
          else Inr (tick jk s1 nframes outBuffer1))"

text \<open>
  A run of callbacks that carry no Launchpad event: each one is a call of \<open>tick\<close> on a
  cleared buffer, and the variables are kept from one to the next.
\<close>

fun ticks :: "jack \<Rightarrow> globals \<Rightarrow> u32 list \<Rightarrow> globals" where
  "ticks jk s [] = s"
| "ticks jk s (nframes # rest) = ticks jk (fst (snd (tick jk s nframes []))) rest"

subsection \<open>Startup\<close>

text \<open>
  The variables when the program starts: Go's zero values, and the tempo read from the
  command line.
\<close>

definition startup :: "u32 \<Rightarrow> globals" where
  "startup t = \<lparr>beat = 0, firstNotePlayed = False, sampleCount = 0, samplesPerBeat = 0,
     tempo = t, trigs = replicate 8 (replicate 64 0), triggerCalls = 0\<rparr>"

text \<open>
  An environment for evaluating the definitions: status constants that are distinct bit
  flags, as JACK's status values are, and a \<open>MidiEventWrite\<close> that returns \<open>rc\<close>
  for every call.
\<close>

definition jackWith :: "int \<Rightarrow> jack" where
  "jackWith rc = \<lparr>Failure = 0x01, InvalidOption = 0x02, NameNotUnique = 0x04,
     ServerError = 0x20, NoSuchClient = 0x40, LoadFailure = 0x80, InitFailure = 0x100,
     ShmFailure = 0x200, VersionError = 0x400, BackendError = 0x800, ClientZombie = 0x1000,
     MidiEventWrite = (\<lambda>p d b. rc)\<rparr>"

text \<open>
  The program started with the default tempo of 120 BPM, after JACK has reported a sample
  rate of 48000 Hz; and the same program after a first callback of 1024 frames.
\<close>

definition started :: globals where
  "started = snd (setSamplesPerBeat (startup 120) 48000)"

definition running :: globals where
  "running = ticks (jackWith 0) started [1024]"

text \<open>
  The button table in the words of the specification, not taken from \<open>cc\<close>: the
  controller buttons \<open>0x68\<close> to \<open>0x6D\<close> select the channel offsets 0 to 5.
\<close>

definition specButtonTable :: "(u8 \<times> u8) list" where
  "specButtonTable = [(0x68, 0), (0x69, 1), (0x6A, 2), (0x6B, 3), (0x6C, 4), (0x6D, 5)]"

section \<open>Basic facts\<close>

text \<open>
  \<open>triggerTrack\<close> returns 0, so \<open>trigger\<close> returns 0 whatever the grid holds and
  whatever the failure codes are: a return from inside the loops returns that same 0.
\<close>

lemma triggerTrigs_code: "triggerTrigs jk track xs buf = Some c \<Longrightarrow> c = 0"
  by (induction xs) (auto simp: triggerTrack_def split: if_splits)

lemma triggerTracks_zero: "triggerTracks jk track xss buf = 0"
  by (induction xss arbitrary: track) (auto split: option.splits dest: triggerTrigs_code)

lemma trigger_eq: "trigger jk s n buf = (0, s\<lparr>triggerCalls := Suc (triggerCalls s)\<rparr>, buf)"
  by (simp add: trigger_def triggerTracks_zero)

text \<open>A callback with no Launchpad event is a call of \<open>tick\<close> on the cleared buffer.\<close>

lemma Process_no_events: "Process jk s n [] = Inr (tick jk s n [])"
  by (simp add: Process_def)

text \<open>The two modes of \<open>tick\<close>: once a first note has been played, and before.\<close>

lemma tick_running:
  "firstNotePlayed s \<Longrightarrow> tick jk s n buf =
     (if sampleCount s + n < samplesPerBeat s
      then (0, s\<lparr>sampleCount := sampleCount s + n\<rparr>, buf)
      else (0, s\<lparr>triggerCalls := Suc (triggerCalls s)\<rparr>, buf))"
  by (simp add: tick_def trigger_eq)

lemma tick_idle:
  "\<not> firstNotePlayed s \<Longrightarrow> tick jk s n buf =
     (case advanceStepLight jk s buf of
        (code, s1, buf1) \<Rightarrow>
          if isFailure jk code then (code, s1, buf1)
          else (0, s1\<lparr>firstNotePlayed := True, triggerCalls := Suc (triggerCalls s1)\<rparr>, buf1))"
  by (simp add: tick_def trigger_eq split: prod.splits)

lemma started_eq: "started = (startup 120)\<lparr>samplesPerBeat := 24000\<rparr>"
  by (simp add: started_def setSamplesPerBeat_def startup_def)

lemma running_eq:
  "running = (startup 120)\<lparr>beat := 1, firstNotePlayed := True, samplesPerBeat := 24000,
     triggerCalls := 1\<rparr>"
  by (simp add: running_def started_eq tick_idle advanceStepLight_def midiEventWrite_def
      isFailure_def jackWith_def startup_def DivideByZero_def)

lemmas eval_defs = tick_running tick_idle advanceStepLight_def midiEventWrite_def
  isFailure_def jackWith_def startup_def DivideByZero_def

lemma tick_triggerCalls_le: "triggerCalls (fst (snd (tick jk s n buf))) \<le> Suc (triggerCalls s)"
  by (cases "firstNotePlayed s")
     (auto simp: tick_running tick_idle advanceStepLight_def midiEventWrite_def split: prod.splits)

lemma ticks_triggerCalls_le: "triggerCalls (ticks jk s ns) \<le> triggerCalls s + length ns"
proof (induction ns arbitrary: s)
  case Nil
  show ?case by simp
next
  case (Cons n ns)
  have "triggerCalls (ticks jk (fst (snd (tick jk s n []))) ns)
          \<le> triggerCalls (fst (snd (tick jk s n []))) + length ns"
    by (rule Cons.IH)
  also have "\<dots> \<le> Suc (triggerCalls s) + length ns"
    using tick_triggerCalls_le [of jk s n "[]"] by simp
  finally show ?case by simp
qed

lemma tick_carry:
  "sampleCount s < samplesPerBeat s \<Longrightarrow>
   sampleCount (fst (snd (tick jk s n buf))) < samplesPerBeat (fst (snd (tick jk s n buf)))"
  by (cases "firstNotePlayed s")
     (auto simp: tick_running tick_idle advanceStepLight_def midiEventWrite_def split: prod.splits)

lemma tick_samplesPerBeat:
  "samplesPerBeat (fst (snd (tick jk s n buf))) = samplesPerBeat s"
  by (cases "firstNotePlayed s")
     (auto simp: tick_running tick_idle advanceStepLight_def midiEventWrite_def split: prod.splits)

lemma ticks_samplesPerBeat: "samplesPerBeat (ticks jk s ns) = samplesPerBeat s"
  by (induction ns arbitrary: s) (simp_all add: tick_samplesPerBeat)

lemma ticks_carry:
  "sampleCount s < samplesPerBeat s \<Longrightarrow>
   sampleCount (ticks jk s ns) < samplesPerBeat (ticks jk s ns)"
  by (induction ns arbitrary: s) (simp_all add: tick_carry)

lemma ticks_running:
  "firstNotePlayed s \<Longrightarrow> firstNotePlayed (ticks jk s ns) \<and> beat (ticks jk s ns) = beat s"
  by (induction ns arbitrary: s) (simp_all add: tick_running)

text \<open>
  What \<open>tick\<close> does to the step cursor: nothing once the first note has been played,
  and one step, in 64-bit arithmetic, before.
\<close>

lemma tick_beat:
  "(firstNotePlayed s \<longrightarrow>
      beat (fst (snd (tick jk s n buf))) = beat s \<and> snd (snd (tick jk s n buf)) = buf \<and>
      beat (ticks jk s ns) = beat s) \<and>
   (\<not> firstNotePlayed s \<longrightarrow> beat (fst (snd (tick jk s n buf))) = beat s + 1)"
  by (auto simp: tick_running tick_idle ticks_running advanceStepLight_def midiEventWrite_def
      split: prod.splits)

text \<open>
  For a step in the pattern, Go's truncating division agrees with \<open>div\<close> and \<open>mod\<close>,
  and the note number fits a byte: \<open>stepLightMidiData\<close> computes \<open>s / 8 + 16 * (s % 8)\<close>.
\<close>

lemma stepLightMidiData_steps:
  "0 \<le> b \<Longrightarrow> b < 64 \<Longrightarrow>
   stepLightMidiData b = [0x90, word_of_int (b div 8 + 16 * (b mod 8)), 63] \<and>
   uint (word_of_int (b div 8 + 16 * (b mod 8)) :: u8) = b div 8 + 16 * (b mod 8)"
proof -
  assume b: "0 \<le> b" "b < 64"
  define k where "k = b div 8 + 16 * (b mod 8)"
  have q: "go_quot b 8 = b div 8"
    using b by (cases "b = 0") (simp_all add: go_quot_def)
  have r: "go_rem b 8 = b mod 8"
    by (simp add: go_rem_def q minus_mult_div_eq_mod)
  have "0 \<le> k" "k < 256"
    using b by (auto simp: k_def)
  then have u: "uint (word_of_int k :: u8) = k"
    by (simp add: uint_word_of_int)
  have "stepLightMidiData b = [0x90, word_of_int k, 63]"
    by (simp only: stepLightMidiData_def q r k_def)
  then show ?thesis
    using u unfolding k_def by blast
qed

section \<open>The clock and the sequencer\<close>

subsection \<open>C1: beat crossings and the partition of the frames\<close>

text \<open>
  C1 says that a total of \<open>T = k * samplesPerBeat\<close> frames yields exactly \<open>k\<close> beat
  crossings however it is split into calls of \<open>tick\<close>. A crossing is a call of
  \<open>trigger\<close>. The program started at 24000 samples per beat, after its first callback,
  with nothing carried: 48000 frames are two beats, but they yield one crossing when
  passed in one call, two in two calls of 24000, and three in four calls of 12000.
\<close>

theorem partition_counterexample:
  "firstNotePlayed running \<and> sampleCount running = 0 \<and> samplesPerBeat running = 24000 \<and>
   triggerCalls (ticks (jackWith 0) running [48000]) = triggerCalls running + 1 \<and>
   triggerCalls (ticks (jackWith 0) running [24000, 24000]) = triggerCalls running + 2 \<and>
   triggerCalls (ticks (jackWith 0) running [12000, 12000, 12000, 12000]) = triggerCalls running + 3"
  by (simp add: running_eq eval_defs)

text \<open>
  C1, as the code has it: once the first note has been played, a call of \<open>tick\<close>
  reports no crossing when the 32-bit sum \<open>sampleCount + nframes\<close> is below
  \<open>samplesPerBeat\<close>, and then adds the frames to \<open>sampleCount\<close>; otherwise it reports
  exactly one, however many beats the frames span. So a run of calls reports at most as
  many crossings as there are calls, and with nothing carried a single call of
  \<open>k * samplesPerBeat\<close> frames, \<open>k\<close> at least 1, reports one crossing.
\<close>

theorem tick_crossings:
  "firstNotePlayed s \<Longrightarrow>
     triggerCalls (fst (snd (tick jk s n buf))) =
       triggerCalls s + (if sampleCount s + n < samplesPerBeat s then 0 else 1) \<and>
     (sampleCount s + n < samplesPerBeat s \<longrightarrow>
        sampleCount (fst (snd (tick jk s n buf))) = sampleCount s + n) \<and>
     triggerCalls (ticks jk s ns) \<le> triggerCalls s + length ns \<and>
     (sampleCount s = 0 \<longrightarrow> 1 \<le> k \<longrightarrow> unat n = k * unat (samplesPerBeat s) \<longrightarrow>
        triggerCalls (fst (snd (tick jk s n buf))) = triggerCalls s + 1)"
proof -
  assume r: "firstNotePlayed s"
  have one: "triggerCalls (fst (snd (tick jk s n buf))) = triggerCalls s + 1"
    if "sampleCount s = 0" "1 \<le> k" "unat n = k * unat (samplesPerBeat s)"
  proof -
    have "unat (samplesPerBeat s) \<le> unat n"
      using that by simp
    then have "\<not> n < samplesPerBeat s"
      by (simp add: word_less_nat_alt)
    then show ?thesis
      using r that by (simp add: tick_running)
  qed
  show ?thesis
    using r one by (simp add: tick_running ticks_triggerCalls_le)
qed

text \<open>
  C1, at the running program: 1024 frames are carried without a crossing, and 48000
  frames, two beats, in one call are one crossing.
\<close>

theorem tick_crossings_witness:
  "firstNotePlayed running \<and> sampleCount running = 0 \<and>
   unat (48000 :: u32) = 2 * unat (samplesPerBeat running) \<and>
   triggerCalls (fst (snd (tick (jackWith 0) running 1024 []))) = 1 \<and>
   sampleCount (fst (snd (tick (jackWith 0) running 1024 []))) = 1024 \<and>
   triggerCalls (fst (snd (tick (jackWith 0) running 48000 []))) = 2 \<and>
   triggerCalls (ticks (jackWith 0) running [48000, 48000]) \<le> 3"
proof -
  have h: "firstNotePlayed running"
    by (simp add: running_eq startup_def)
  have v: "sampleCount running = 0" "samplesPerBeat running = 24000" "triggerCalls running = 1"
    by (simp_all add: running_eq startup_def)
  have k: "(1 :: nat) \<le> 2" "unat (48000 :: u32) = 2 * unat (samplesPerBeat running)"
    by (simp_all add: v)
  have a: "triggerCalls (fst (snd (tick (jackWith 0) running 48000 []))) = triggerCalls running + 1"
    using tick_crossings [OF h, where jk = "jackWith 0" and n = 48000 and buf = "[]"
        and ns = "[48000, 48000]" and k = 2] v(1) k
    by blast
  show ?thesis
    using h v k(2) a
      tick_crossings [OF h, where jk = "jackWith 0" and n = 1024 and buf = "[]"
        and ns = "[48000, 48000]" and k = 1]
    by simp
qed

subsection \<open>C2: the first tick\<close>



subsection \<open>C3: the sample rate callback\<close>

text \<open>
  C3 says that a sample rate of 0 is refused. \<open>setSamplesPerBeat\<close> tests the tempo,
  not the sample rate: at tempo 120 a sample rate of 0 is accepted and gives 0 samples
  per beat. And the product \<open>60 * sr\<close> is a 32-bit one: at the sample rate 71582789 it
  wraps to 44, and the result is 0 where the quotient is 35791394.
\<close>

theorem setSamplesPerBeat_counterexample:
  "fst (setSamplesPerBeat (startup 120) 0) = 0 \<and>
   samplesPerBeat (snd (setSamplesPerBeat (startup 120) 0)) = 0 \<and>
   samplesPerBeat (snd (setSamplesPerBeat (startup 120) 71582789)) = 0 \<and>
   (60 * 71582789) div 120 = (35791394 :: nat)"
  by (simp add: setSamplesPerBeat_def startup_def)

text \<open>
  C3, as the code has it: \<open>setSamplesPerBeat\<close> fails, with \<open>DivideByZero\<close> and with
  nothing changed, when the tempo is 0; at any other tempo it returns 0 for every sample
  rate, 0 included, and sets \<open>samplesPerBeat\<close> to the floor of \<open>60 * sr / tempo\<close>
  whenever \<open>60 * sr\<close> fits 32 bits.
\<close>

theorem setSamplesPerBeat_contract:
  "(tempo s = 0 \<longrightarrow> setSamplesPerBeat s sr = (DivideByZero, s)) \<and>
   (tempo s \<noteq> 0 \<longrightarrow> fst (setSamplesPerBeat s sr) = 0) \<and>
   (tempo s \<noteq> 0 \<longrightarrow> 60 * unat sr < 2 ^ 32 \<longrightarrow>
      unat (samplesPerBeat (snd (setSamplesPerBeat s sr))) = (60 * unat sr) div unat (tempo s))"
  by (simp add: setSamplesPerBeat_def unat_div unat_word_ariths)

text \<open>
  C3, at tempo 120 and 48000 Hz: 24000 samples per beat; and at tempo 0 the failure.
\<close>

theorem setSamplesPerBeat_contract_witness:
  "tempo (startup 120) \<noteq> 0 \<and> 60 * unat (48000 :: u32) < 2 ^ 32 \<and>
   fst (setSamplesPerBeat (startup 120) 48000) = 0 \<and>
   unat (samplesPerBeat (snd (setSamplesPerBeat (startup 120) 48000))) = 24000 \<and>
   tempo (startup 0) = 0 \<and>
   setSamplesPerBeat (startup 0) 48000 = (50, startup 0)"
proof -
  have t: "tempo (startup 120) \<noteq> 0" "tempo (startup 120) = 120" "tempo (startup 0) = 0"
    by (simp_all add: startup_def)
  show ?thesis
    using t setSamplesPerBeat_contract [of "startup 120" 48000]
      setSamplesPerBeat_contract [of "startup 0" 48000]
    by (simp add: DivideByZero_def)
qed

subsection \<open>C4: the step cursor\<close>

text \<open>
  C4 says that every beat crossing advances the step cursor modulo 64 and lights the new
  step. The program advances the cursor in \<open>advanceStepLight\<close>, and calls it only
  before the first note has been played. Started at 120 BPM and 48000 Hz, after a first
  callback of 1024 frames, it is at step 1; a callback of 24000 frames is then a beat
  crossing, the trigger is called, and the cursor is still 1 and no light has been
  written, after one such callback and after sixty-five.
\<close>

theorem running_tick_keeps_cursor:
  "firstNotePlayed running \<and> beat running = 1 \<and>
   triggerCalls (fst (snd (tick (jackWith 0) running 24000 []))) = triggerCalls running + 1 \<and>
   beat (fst (snd (tick (jackWith 0) running 24000 []))) = 1 \<and>
   snd (snd (tick (jackWith 0) running 24000 [])) = [] \<and>
   beat (ticks (jackWith 0) running (replicate 65 24000)) = 1"
proof -
  have r: "firstNotePlayed running"
    by (simp add: running_eq startup_def)
  have "beat (ticks (jackWith 0) running (replicate 65 24000)) = beat running"
    using ticks_running [OF r] by blast
  then show ?thesis
    by (simp add: running_eq eval_defs)
qed

subsection \<open>C9: the carry\<close>

text \<open>
  C9 says that \<open>sampleCount < samplesPerBeat\<close> holds at the end of every call of
  \<open>tick\<close> as soon as \<open>samplesPerBeat\<close> is positive. The comment on \<open>sampleCount\<close>
  says that it is reset every time a step is triggered; \<open>tick\<close> never resets it. The
  program is started at 120 BPM and 48000 Hz and has carried 23000 frames after callbacks
  of 1024 and 23000 frames; JACK then reports 44100 Hz, which makes a beat 22050 frames;
  the next callback of 1024 frames triggers and ends with 23000 frames carried, above the
  beat period.
\<close>

theorem carry_after_rate_change:
  "sampleCount (ticks (jackWith 0) started [1024, 23000]) = 23000 \<and>
   fst (setSamplesPerBeat (ticks (jackWith 0) started [1024, 23000]) 44100) = 0 \<and>
   samplesPerBeat
     (ticks (jackWith 0)
        (snd (setSamplesPerBeat (ticks (jackWith 0) started [1024, 23000]) 44100)) [1024]) = 22050 \<and>
   sampleCount
     (ticks (jackWith 0)
        (snd (setSamplesPerBeat (ticks (jackWith 0) started [1024, 23000]) 44100)) [1024]) = 23000 \<and>
   triggerCalls
     (ticks (jackWith 0)
        (snd (setSamplesPerBeat (ticks (jackWith 0) started [1024, 23000]) 44100)) [1024]) = 2"
  by (simp add: started_eq eval_defs setSamplesPerBeat_def)

section \<open>Inbound MIDI and the events written\<close>

subsection \<open>C5: controller buttons\<close>

text \<open>
  C5: a three-byte message with status \<open>0xB0\<close> makes one call of \<open>MidiEventWrite\<close>,
  on the Nord Drum output, with a note-on of note \<open>0x36\<close> and the velocity of the
  message; its status byte is \<open>0x90\<close> or-ed with a channel offset of at most 5, which for
  a button of the table is the offset the table gives. The status code of the call is
  what \<open>processMidi\<close> returns, and no variable changes.
\<close>

theorem cc_translation:
  "(\<exists>ch. ch \<le> 5 \<and> processMidi jk s n [0xB0, b, v] buf =
      Inr (MidiEventWrite jk ndOutput [0x90 OR ch, 0x36, v] buf, s,
           buf @ [(ndOutput, [0x90 OR ch, 0x36, v])])) \<and>
   (\<forall>ch. map_of specButtonTable b = Some ch \<longrightarrow> processMidi jk s n [0xB0, b, v] buf =
      Inr (MidiEventWrite jk ndOutput [0x90 OR ch, 0x36, v] buf, s,
           buf @ [(ndOutput, [0x90 OR ch, 0x36, v])]))"
proof (intro conjI allI impI)
  show "\<exists>ch. ch \<le> 5 \<and> processMidi jk s n [0xB0, b, v] buf =
      Inr (MidiEventWrite jk ndOutput [0x90 OR ch, 0x36, v] buf, s,
           buf @ [(ndOutput, [0x90 OR ch, 0x36, v])])"
    by (rule exI [of _ "case map_of specButtonTable b of Some c \<Rightarrow> c | None \<Rightarrow> 0"])
       (simp add: specButtonTable_def processMidi_def cc_def midiEventWrite_def Let_def)
next
  fix ch
  assume "map_of specButtonTable b = Some ch"
  then show "processMidi jk s n [0xB0, b, v] buf =
      Inr (MidiEventWrite jk ndOutput [0x90 OR ch, 0x36, v] buf, s,
           buf @ [(ndOutput, [0x90 OR ch, 0x36, v])])"
    by (auto simp: specButtonTable_def processMidi_def cc_def midiEventWrite_def Let_def
        split: if_splits)
qed

text \<open>
  C5, at the message \<open>0xB0 0x6A 0x64\<close>: button 3 has offset 2, and the event written is
  \<open>0x92 0x36 0x64\<close>.
\<close>

theorem cc_translation_witness:
  "map_of specButtonTable 0x6A = Some 2 \<and>
   processMidi (jackWith 0) started 1024 [0xB0, 0x6A, 0x64] [] =
     Inr (0, started, [(ndOutput, [0x92, 0x36, 0x64])])"
proof -
  have h: "map_of specButtonTable 0x6A = Some 2"
    by (simp add: specButtonTable_def)
  have "processMidi (jackWith 0) started 1024 [0xB0, 0x6A, 0x64] [] =
      Inr (MidiEventWrite (jackWith 0) ndOutput [0x90 OR 2, 0x36, 0x64] [], started,
           [] @ [(ndOutput, [0x90 OR 2, 0x36, 0x64])])"
    using cc_translation [of "jackWith 0" started 1024 "0x6A" "0x64" "[]"] h by blast
  then show ?thesis
    using h by (simp add: jackWith_def)
qed

subsection \<open>C10: controller messages outside the button table\<close>

text \<open>
  C10: a three-byte message with status \<open>0xB0\<close> whose second byte is none of the six
  buttons is not dropped: the note-on is written all the same, to the Nord Drum output,
  with the status byte \<open>0x90\<close> as it is, note \<open>0x36\<close> and the velocity of the message.
\<close>

theorem cc_other_button:
  "b \<notin> {0x68, 0x69, 0x6A, 0x6B, 0x6C, 0x6D} \<Longrightarrow>
   processMidi jk s n [0xB0, b, v] buf =
     Inr (MidiEventWrite jk ndOutput [0x90, 0x36, v] buf, s, buf @ [(ndOutput, [0x90, 0x36, v])])"
  by (simp add: processMidi_def cc_def midiEventWrite_def Let_def)

text \<open>C10, at the message \<open>0xB0 0x6E 0x7F\<close>, the button after the sixth.\<close>

theorem cc_other_button_witness:
  "(0x6E :: u8) \<notin> {0x68, 0x69, 0x6A, 0x6B, 0x6C, 0x6D} \<and>
   processMidi (jackWith 0) started 1024 [0xB0, 0x6E, 0x7F] [] =
     Inr (0, started, [(ndOutput, [0x90, 0x36, 0x7F])])"
proof -
  have h: "(0x6E :: u8) \<notin> {0x68, 0x69, 0x6A, 0x6B, 0x6C, 0x6D}"
    by simp
  show ?thesis
    using h cc_other_button [OF h, where jk = "jackWith 0" and s = started and n = 1024
        and v = "0x7F" and buf = "[]"]
    by (simp add: jackWith_def)
qed

subsection \<open>C6: notes from the grid\<close>

text \<open>
  C6 says that a note message with a velocity above 0 toggles the cell of the grid that
  its second byte names. The message \<open>0x90 0x23 0x7F\<close> names track 2, step 3: that
  cell is 0 before, and \<open>processMidi\<close> returns the variables as they were, with no
  event written.
\<close>

theorem note_counterexample:
  "trigs started ! 2 ! 3 = 0 \<and>
   processMidi (jackWith 0) started 1024 [0x90, 0x23, 0x7F] [] = Inr (0, started, [])"
  by (simp add: processMidi_def note_ev_def started_eq startup_def)

text \<open>
  C6, as the code has it: for a message with status \<open>0x80\<close> or \<open>0x90\<close>, of any
  length and velocity, \<open>processMidi\<close> returns 0, writes no event and leaves every
  variable, the grid included, as it was.
\<close>

theorem note_is_stub:
  "event \<noteq> [] \<Longrightarrow> event ! 0 = 0x80 \<or> event ! 0 = 0x90 \<Longrightarrow>
   processMidi jk s n event buf = Inr (0, s, buf)"
  by (auto simp: processMidi_def note_ev_def)

text \<open>C6, at the note-off message \<open>0x80 0x45 0x40\<close>.\<close>

theorem note_is_stub_witness:
  "[0x80, 0x45, 0x40 :: u8] \<noteq> [] \<and>
   ([0x80, 0x45, 0x40 :: u8] ! 0 = 0x80 \<or> [0x80, 0x45, 0x40 :: u8] ! 0 = 0x90) \<and>
   processMidi (jackWith 0) started 1024 [0x80, 0x45, 0x40] [] = Inr (0, started, [])"
proof -
  have h1: "[0x80, 0x45, 0x40 :: u8] \<noteq> []"
    by simp
  have h2: "[0x80, 0x45, 0x40 :: u8] ! 0 = 0x80 \<or> [0x80, 0x45, 0x40 :: u8] ! 0 = 0x90"
    by simp
  show ?thesis
    using h1 h2 note_is_stub [OF h1 h2, of "jackWith 0" started 1024 "[]"] by blast
qed

subsection \<open>C8: short messages\<close>

text \<open>
  C8 says that decoding never faults and that a truncated message is ignored.
  \<open>cc\<close> reads \<open>in[2]\<close> with no test of the length: the messages \<open>0xB0\<close> and
  \<open>0xB0 0x6A\<close> panic, and a callback that receives one of them panics with it.
\<close>

theorem truncated_cc_counterexample:
  "processMidi (jackWith 0) started 1024 [0xB0] [] = Inl IndexOutOfRange \<and>
   processMidi (jackWith 0) started 1024 [0xB0, 0x6A] [] = Inl IndexOutOfRange \<and>
   Process (jackWith 0) started 1024 [[0xB0, 0x6A]] = Inl IndexOutOfRange"
  by (simp add: Process_def processMidi_def cc_def)

text \<open>
  C8, as the code has it: \<open>processMidi\<close> panics exactly on an empty message and on a
  message with status \<open>0xB0\<close> of fewer than three bytes; every other message is
  decoded without a fault. A message whose status byte is not \<open>0xB0\<close>, recognised or
  not and however short, writes no event, changes nothing and returns 0.
\<close>

theorem processMidi_panics:
  "(processMidi jk s n event buf = Inl IndexOutOfRange \<longleftrightarrow>
      event = [] \<or> (event \<noteq> [] \<and> event ! 0 = 0xB0 \<and> length event < 3)) \<and>
   (event \<noteq> [] \<longrightarrow> event ! 0 \<noteq> 0xB0 \<longrightarrow> processMidi jk s n event buf = Inr (0, s, buf))"
  by (auto simp: processMidi_def note_ev_def cc_def midiEventWrite_def Let_def)

text \<open>
  C8, at the one-byte timing clock message \<open>0xF8\<close>, which is passed over, and at a
  controller message of four bytes, which does not panic.
\<close>

theorem processMidi_panics_witness:
  "[0xF8 :: u8] \<noteq> [] \<and> [0xF8 :: u8] ! 0 \<noteq> 0xB0 \<and>
   processMidi (jackWith 0) started 1024 [0xF8] [] = Inr (0, started, []) \<and>
   processMidi (jackWith 0) started 1024 [0xB0, 0x6A, 0x64, 0x00] [] \<noteq> Inl IndexOutOfRange"
  using processMidi_panics [of "jackWith 0" started 1024 "[0xF8]" "[]"]
    processMidi_panics [of "jackWith 0" started 1024 "[0xB0, 0x6A, 0x64, 0x00]" "[]"]
  by simp

subsection \<open>C7: the bytes of the step light\<close>

text \<open>
  C7 says that the light event of step \<open>s\<close> is \<open>[0x90, s / 8 + 16 * (s % 8), 63]\<close>,
  the one written for step 0 by the first tick included. \<open>stepLightMidiData\<close> computes
  these bytes: \<open>[0x90, 0, 63]\<close> for step 0, \<open>[0x90, 80, 63]\<close> for step 5. The first
  tick does not call it; under the comment "light step 0" it writes the constant bytes
  \<open>[0x90, 0x10, 63]\<close>, which are the bytes of step 1.
\<close>

theorem first_light_bytes:
  "snd (snd (tick jk (startup t) n [])) = [(launchpadOutput, [0x90, 0x10, 63])] \<and>
   stepLightMidiData 0 = [0x90, 0x00, 63] \<and>
   stepLightMidiData 1 = [0x90, 0x10, 63] \<and>
   stepLightMidiData 5 = [0x90, 80, 63]"
  by (simp add: tick_idle advanceStepLight_def midiEventWrite_def startup_def
      stepLightMidiData_def go_quot_def go_rem_def)

end
